theory Spec2Isabelle
  imports Main "HOL-Library.Word"
begin

section \<open>AudioFileSourceHTTPStream: a streaming HTTP source\<close>

text \<open>
  A shallow embedding of \<^verbatim>\<open>src/AudioFileSourceHTTPStream.cpp\<close>. The C++ object and the
  transport it owns (\<^verbatim>\<open>http\<close>, \<^verbatim>\<open>client\<close>) are one record; every member function takes the
  record and returns its result together with the updated record.

  The class declaration is in a header that is not part of the sources. The member
  variables are read off their uses in the \<^verbatim>\<open>.cpp\<close> file: \<^verbatim>\<open>pos\<close>, \<^verbatim>\<open>size\<close>,
  \<^verbatim>\<open>next_chunk\<close>, \<^verbatim>\<open>reconnectTries\<close> and \<^verbatim>\<open>reconnectDelayMs\<close> are C \<^verbatim>\<open>int\<close>s (the
  source casts \<^verbatim>\<open>pos - size\<close> to \<^verbatim>\<open>uint32_t\<close>, tests \<^verbatim>\<open>next_chunk < 0\<close> and counts
  \<^verbatim>\<open>int i < reconnectTries\<close>). Both C types are 32-bit words here; a comparison is
  written signed (\<open>sint\<close>) or unsigned (word order, \<open>unat\<close>) as C's conversions make it.
\<close>

type_synonym int32 = "32 word"
type_synonym uint32 = "32 word"

subsection \<open>What the object does to the outside: status callbacks, log lines, time\<close>

datatype status =
  STATUS_HTTPFAIL | STATUS_DISCONNECTED | STATUS_RECONNECTING | STATUS_RECONNECTED | STATUS_NODATA

text \<open>
  The calls that leave the object, in the order they are made: \<^verbatim>\<open>cb.st(kind, msg)\<close>,
  \<^verbatim>\<open>audioLogger->printf\<close>, \<^verbatim>\<open>delay(ms)\<close>, \<^verbatim>\<open>yield()\<close> and the request of \<^verbatim>\<open>http.GET()\<close>
  with the URL given to \<^verbatim>\<open>http.begin\<close>.
\<close>

datatype event =
  St status string
  | Log string
  | Delay int32
  | Yield
  | Get string

text \<open>
  The answer of the server to one \<^verbatim>\<open>http.GET()\<close>: the value \<^verbatim>\<open>GET\<close> returns (the HTTP
  status, or a value below zero when no connection was made), the collected
  \<^verbatim>\<open>Transfer-Encoding\<close> header (empty when the response has none), the value of
  \<^verbatim>\<open>http.getSize()\<close>, the bytes of the body that are in the client's buffer when \<^verbatim>\<open>GET\<close>
  returns, and the bytes that arrive later, one list element per tick of waiting.
\<close>

record response =
  status_code :: int
  transfer_encoding :: string
  content_length :: int32
  body :: string
  body_later :: "string list"

datatype read_impl = ReadRegular | ReadChunked

text \<open>
  The member variables of the object, then the transport:
  \<^item> \<open>connected\<close> is \<^verbatim>\<open>http.connected()\<close>;
  \<^item> \<open>rx\<close> holds the bytes the client has received and not yet handed out, so
    \<^verbatim>\<open>client.available()\<close> is \<open>length (rx s)\<close>;
  \<^item> \<open>arrivals\<close> are the bytes still on their way: the head arrives at the next
    \<^verbatim>\<open>yield()\<close>;
  \<^item> \<open>server n\<close> is the answer to the \<open>n\<close>-th \<^verbatim>\<open>GET\<close> from now;
  \<^item> \<open>stream_timeout\<close> is the client's \<^verbatim>\<open>Stream\<close> timeout in ticks, used by
    \<^verbatim>\<open>readStringUntil\<close>;
  \<^item> \<open>crlf_stack\<close> is what the uninitialised local array \<^verbatim>\<open>crlf\<close> of \<^verbatim>\<open>verifyCrlf\<close>
    holds before the client writes into it;
  \<^item> \<open>esp32\<close> is the build target (\<^verbatim>\<open>#ifdef ESP32\<close>);
  \<^item> \<open>trace\<close> lists the outside calls made so far.
  Fields the constructors leave unset (\<^verbatim>\<open>size\<close>, \<^verbatim>\<open>reconnectDelayMs\<close>,
  \<^verbatim>\<open>is_chunked\<close>, \<^verbatim>\<open>readImpl\<close>) keep whatever value the record had.
\<close>

record source =
  pos :: int32
  size' :: int32
  reconnectTries :: int32
  reconnectDelayMs :: int32
  saveURL :: string
  next_chunk :: int32
  is_chunked :: bool
  readImpl :: read_impl
  eof :: bool
  connected :: bool
  rx :: string
  arrivals :: "string list"
  server :: "nat \<Rightarrow> response"
  stream_timeout :: nat
  crlf_stack :: string
  esp32 :: bool
  trace :: "event list"

definition emit :: "event \<Rightarrow> source \<Rightarrow> source" where
  "emit e s = s\<lparr>trace := trace s @ [e]\<rparr>"

text \<open>
  Time is counted in ticks: each \<^verbatim>\<open>yield()\<close> lets one millisecond pass, and the bytes
  due at that tick reach the client's buffer. A wait loop of the source that runs while
  \<^verbatim>\<open>millis() - start < T\<close> therefore makes at most \<open>T\<close> calls of \<^verbatim>\<open>yield()\<close>.
\<close>

definition yield :: "source \<Rightarrow> source" where
  "yield s =
     (case arrivals s of
        [] \<Rightarrow> emit Yield s
      | a # as \<Rightarrow> emit Yield (s\<lparr>rx := rx s @ a, arrivals := as\<rparr>))"

definition delay :: "int32 \<Rightarrow> source \<Rightarrow> source" where
  "delay ms s = emit (Delay ms) s"

subsection \<open>The transport handle\<close>

text \<open>\<^verbatim>\<open>http.end()\<close> and \<^verbatim>\<open>stream->stop()\<close> terminate the connection: nothing is left to read.\<close>

definition http_end :: "source \<Rightarrow> source" where
  "http_end s = s\<lparr>connected := False, rx := [], arrivals := []\<rparr>"

definition client_stop :: "source \<Rightarrow> source" where
  "client_stop s = s\<lparr>connected := False, rx := [], arrivals := []\<rparr>"

text \<open>
  \<^verbatim>\<open>http.begin(client, url); ... http.GET()\<close>: the next answer of the server is taken; the
  session is connected when an HTTP status came back.
\<close>

definition http_GET :: "string \<Rightarrow> source \<Rightarrow> response \<times> source" where
  "http_GET url s =
     (let r = server s 0 in
      (r, emit (Get url)
            (s\<lparr>server := (\<lambda>n. server s (Suc n)),
               connected := (0 < status_code r),
               rx := body r,
               arrivals := body_later r\<rparr>)))"

definition HTTP_CODE_OK :: int where
  "HTTP_CODE_OK = 200"

subsection \<open>Library routines the source calls\<close>

definition CR :: char where "CR = CHR 0x0D"
definition LF :: char where "LF = CHR 0x0A"

text \<open>
  \<^verbatim>\<open>Stream::timedRead\<close>: the next byte, waiting for it up to the stream timeout.
\<close>

fun timedRead :: "nat \<Rightarrow> source \<Rightarrow> char option \<times> source" where
  "timedRead t s =
     (case rx s of
        c # cs \<Rightarrow> (Some c, s\<lparr>rx := cs\<rparr>)
      | [] \<Rightarrow> (case t of 0 \<Rightarrow> (None, s) | Suc t' \<Rightarrow> timedRead t' (yield s)))"

definition pending :: "source \<Rightarrow> nat" where
  "pending s = length (rx s) + length (concat (arrivals s))"

lemma pending_yield: "pending (yield s) = pending s"
  by (simp add: yield_def pending_def emit_def split: list.splits)

lemma timedRead_pending:
  "timedRead t s = (Some c, s') \<Longrightarrow> pending s' < pending s"
proof (induction t arbitrary: s)
  case 0
  then show ?case by (auto simp: pending_def split: list.splits)
next
  case (Suc t)
  show ?case
  proof (cases "rx s")
    case Nil
    with Suc.prems have "timedRead t (yield s) = (Some c, s')" by simp
    from Suc.IH [OF this] show ?thesis by (simp add: pending_yield)
  next
    case (Cons a as)
    with Suc.prems show ?thesis by (auto simp: pending_def)
  qed
qed

declare timedRead.simps [simp del]

text \<open>
  \<^verbatim>\<open>Stream::readStringUntil(terminator)\<close>: the bytes up to the terminator, which is
  consumed and not returned; the string ends early when \<^verbatim>\<open>timedRead\<close> times out.
\<close>

function readStringUntil :: "char \<Rightarrow> source \<Rightarrow> string \<times> source" where
  "readStringUntil terminator s =
     (case timedRead (stream_timeout s) s of
        (None, s') \<Rightarrow> ([], s')
      | (Some c, s') \<Rightarrow>
          if c = terminator then ([], s')
          else (case readStringUntil terminator s' of (r, s'') \<Rightarrow> (c # r, s'')))"
  by pat_completeness auto
termination
  by (relation "measure (\<lambda>(terminator, s). pending s)")
     (auto dest: timedRead_pending [OF sym])

declare readStringUntil.simps [simp del]

text \<open>
  \<^verbatim>\<open>sscanf(str, "%x", &val)\<close> as the C library of the targets carries it out: the
  string ends at its first NUL; white space is skipped; end of input before any
  conversion is an input failure (\<^verbatim>\<open>EOF\<close>, -1); then an optional sign, an optional \<^verbatim>\<open>0x\<close>
  that a hexadecimal digit follows, and hexadecimal digits are read, and no digit is a
  matching failure (0). So \<^verbatim>\<open>0x\<close> with no digit after it is the number 0. The digits are
  converted as \<^verbatim>\<open>strtoul\<close> does it with an \<^verbatim>\<open>unsigned long\<close> of 32 bits: a number that
  does not fit gives the largest value, \<open>2 ^ 32 - 1\<close>, and a minus sign negates any
  other. The pair is the return value of \<^verbatim>\<open>sscanf\<close> and the value left in \<^verbatim>\<open>val\<close>, which
  the source initialises to 0.
\<close>

definition isspace :: "char \<Rightarrow> bool" where
  "isspace c = (of_char c \<in> {32, 9, 10, 11, 12, 13 :: nat})"

definition hexval :: "char \<Rightarrow> nat option" where
  "hexval c =
     (let n = of_char c :: nat in
      if 48 \<le> n \<and> n \<le> 57 then Some (n - 48)
      else if 97 \<le> n \<and> n \<le> 102 then Some (n - 87)
      else if 65 \<le> n \<and> n \<le> 70 then Some (n - 55)
      else None)"

definition hexnum :: "string \<Rightarrow> nat" where
  "hexnum ds =
     foldl (\<lambda>a c. a * 16 + (case hexval c of Some d \<Rightarrow> d | None \<Rightarrow> 0)) 0 ds"

definition sscanf_x :: "string \<Rightarrow> int \<times> uint32" where
  "sscanf_x str =
     (let cs = dropWhile isspace (takeWhile (\<lambda>c. c \<noteq> CHR 0x00) str) in
      case cs of
        [] \<Rightarrow> (- 1, 0)
      | c # cs' \<Rightarrow>
          let ds0 = (if c = CHR ''-'' \<or> c = CHR ''+'' then cs' else cs);
              ds1 = (case ds0 of
                       a # b # d # ds \<Rightarrow>
                         if a = CHR ''0'' \<and> (b = CHR ''x'' \<or> b = CHR ''X'') \<and> hexval d \<noteq> None
                         then d # ds else ds0
                     | _ \<Rightarrow> ds0);
              digits = takeWhile (\<lambda>d. hexval d \<noteq> None) ds1;
              n = hexnum digits
          in if digits = [] then (0, 0)
             else (1, if 2 ^ 32 \<le> n then - 1
                      else if c = CHR ''-'' then - of_nat n else of_nat n))"

text \<open>\<^verbatim>\<open>sprintf("%d", i)\<close> for the attempt number, which is never negative.\<close>

fun dec :: "nat \<Rightarrow> string" where
  "dec n =
     (if n < 10 then [char_of (48 + n)]
      else dec (n div 10) @ [char_of (48 + n mod 10)])"

declare dec.simps [simp del]

subsection \<open>Chunk framing\<close>

text \<open>
  \<^verbatim>\<open>verifyCrlf\<close>: \<^verbatim>\<open>client.read(crlf, 2)\<close> takes up to two bytes; the bytes of \<^verbatim>\<open>crlf\<close> it
  does not write keep what the array held. \<^verbatim>\<open>strncmp\<close> compares the first two bytes
  with CR LF.
\<close>

definition verifyCrlf :: "source \<Rightarrow> bool \<times> source" where
  "verifyCrlf s =
     (let got = take 2 (rx s);
          crlf = got @ drop (length got) (crlf_stack s)
      in (take 2 crlf = [CR, LF], s\<lparr>rx := drop 2 (rx s)\<rparr>))"

text \<open>
  The loop of \<^verbatim>\<open>getChunkSize\<close>:
  \<^verbatim>\<open>while ((client.available() == 0) && (millis() - start < 1500)) yield();\<close>
\<close>

fun wait_available :: "nat \<Rightarrow> source \<Rightarrow> source" where
  "wait_available 0 s = s"
| "wait_available (Suc t) s = (if rx s = [] then wait_available t (yield s) else s)"

text \<open>
  \<^verbatim>\<open>getChunkSize\<close>: -1 when nothing arrives in time or \<^verbatim>\<open>sscanf\<close> returns 0; otherwise
  \<^verbatim>\<open>val\<close>, converted from \<^verbatim>\<open>unsigned int\<close> to \<^verbatim>\<open>int\<close>.
\<close>

definition getChunkSize :: "source \<Rightarrow> int32 \<times> source" where
  "getChunkSize s =
     (let s1 = wait_available 1500 s in
      if rx s1 = [] then (- 1, s1)
      else
        let (len_str, s2) = readStringUntil CR s1;
            (lf, s3) = readStringUntil LF s2;
            (ret, val) = sscanf_x len_str
        in if ret \<noteq> 0 then (val, s3) else (- 1, s3))"

subsection \<open>open, close and the accessors\<close>

text \<open>
  Modelled from the spec: the header that declares \<^verbatim>\<open>char saveURL[...]\<close> is not part of
  the sources; the spec only says that the URL is retained, truncated to a fixed maximum
  length. The array is taken to hold 128 bytes, so 127 characters and the final NUL.
\<close>

definition saveURL_size :: nat where
  "saveURL_size = 128"

text \<open>
  \<^verbatim>\<open>open\<close>. The order of the source is kept: \<^verbatim>\<open>pos = 0\<close>, the request, the status test
  (with \<^verbatim>\<open>http.end()\<close> and the status callback on failure), the header test, in chunked
  mode the first chunk size (and \<^verbatim>\<open>return false\<close> on -1, with nothing else done), then
  \<^verbatim>\<open>size\<close> and \<^verbatim>\<open>saveURL\<close>.
\<close>

definition opened :: "string \<Rightarrow> response \<Rightarrow> source \<Rightarrow> bool \<times> source" where
  "opened url r s =
     (True, s\<lparr>size' := content_length r, saveURL := take (saveURL_size - 1) url\<rparr>)"

definition "open" :: "string \<Rightarrow> source \<Rightarrow> bool \<times> source" where
  "open url s =
     (let (r, s1) = http_GET url (s\<lparr>pos := 0\<rparr>) in
      if status_code r \<noteq> HTTP_CODE_OK then
        (False, emit (St STATUS_HTTPFAIL ''Can't open HTTP request'') (http_end s1))
      else if transfer_encoding r \<noteq> [] then
        (let s2 = emit (Log (''Transfer-Encoding: '' @ transfer_encoding r @ [LF])) s1 in
         if transfer_encoding r = ''chunked'' then
           (let (n, s3) = getChunkSize s2;
                s4 = s3\<lparr>next_chunk := n\<rparr>
            in if n = - 1 then (False, s4)
               else opened url r (s4\<lparr>is_chunked := True, readImpl := ReadChunked\<rparr>))
         else opened url r (s2\<lparr>is_chunked := False, readImpl := ReadRegular\<rparr>))
      else
        opened url r
          ((emit (Log (''No Transfer-Encoding'' @ [LF])) (s1\<lparr>readImpl := ReadRegular\<rparr>))
             \<lparr>is_chunked := False\<rparr>))"

text \<open>
  \<^verbatim>\<open>close\<close>. On ESP32 the stream is stopped first when it is connected and has bytes
  available; then \<^verbatim>\<open>http.end()\<close> and \<^verbatim>\<open>eof = true\<close>.
\<close>

definition close :: "source \<Rightarrow> bool \<times> source" where
  "close s =
     (let s1 = (if esp32 s \<and> connected s \<and> rx s \<noteq> [] then client_stop s else s)
      in (True, (http_end s1)\<lparr>eof := True\<rparr>))"

definition isOpen :: "source \<Rightarrow> bool" where
  "isOpen s = (connected s \<and> \<not> eof s)"

definition getSize :: "source \<Rightarrow> uint32" where
  "getSize s = size' s"

definition getPos :: "source \<Rightarrow> uint32" where
  "getPos s = pos s"

definition seek :: "source \<Rightarrow> int32 \<Rightarrow> int \<Rightarrow> bool \<times> source" where
  "seek s p dir =
     (False, emit (Log ''ERROR! AudioFileSourceHTTPStream::seek not implemented!'') s)"

text \<open>The two constructors; the second ignores the result of \<^verbatim>\<open>open\<close>.\<close>

definition AudioFileSourceHTTPStream :: "source \<Rightarrow> source" where
  "AudioFileSourceHTTPStream s =
     s\<lparr>pos := 0, reconnectTries := 0, saveURL := [], next_chunk := 0, eof := False\<rparr>"

definition AudioFileSourceHTTPStream_url :: "string \<Rightarrow> source \<Rightarrow> source" where
  "AudioFileSourceHTTPStream_url url s =
     snd (open url (s\<lparr>saveURL := [], reconnectTries := 0, next_chunk := 0\<rparr>))"

subsection \<open>The low-level read\<close>

text \<open>
  The reconnect loop of \<^verbatim>\<open>readInternal\<close>,
  \<^verbatim>\<open>for (int i = 0; i < reconnectTries; i++)\<close>. \<open>attempt i\<close> is its body up to the test
  of what \<^verbatim>\<open>open(saveURL)\<close> returned. Nothing in the loop assigns \<^verbatim>\<open>reconnectTries\<close>, so
  the loop is entered with the number \<open>k\<close> of iterations that are left; \<open>i\<close> is the
  attempt number that is printed.
\<close>

definition attempt :: "nat \<Rightarrow> source \<Rightarrow> bool \<times> source" where
  "attempt i s =
     (let s1 = emit (St STATUS_RECONNECTING (''Attempting to reconnect, try '' @ dec i)) s;
          s2 = delay (reconnectDelayMs s1) s1
      in open (saveURL s2) s2)"

fun reconnect_loop :: "nat \<Rightarrow> nat \<Rightarrow> source \<Rightarrow> source" where
  "reconnect_loop i 0 s = s"
| "reconnect_loop i (Suc k) s =
     (case attempt i s of
        (ok, s3) \<Rightarrow>
          if ok then emit (St STATUS_RECONNECTED ''Stream reconnected'') s3
          else reconnect_loop (Suc i) k s3)"

definition reconnect :: "source \<Rightarrow> source" where
  "reconnect s =
     reconnect_loop 0 (nat (sint (reconnectTries s)))
       (http_end (emit (St STATUS_DISCONNECTED ''Stream disconnected'') s))"

text \<open>
  The wait of a blocking read:
  \<^verbatim>\<open>while ((stream->available() < (int)len) && (millis() - start < 500)) yield();\<close>
\<close>

fun wait_stream :: "nat \<Rightarrow> uint32 \<Rightarrow> source \<Rightarrow> source" where
  "wait_stream 0 len s = s"
| "wait_stream (Suc t) len s =
     (if int (length (rx s)) < sint len then wait_stream t len (yield s) else s)"

text \<open>
  \<^verbatim>\<open>if ((size > 0) && (len > (uint32_t)(pos - size))) len = pos - size;\<close>
\<close>

definition cap_len :: "source \<Rightarrow> uint32 \<Rightarrow> uint32" where
  "cap_len s len =
     (if 0 < sint (size' s) \<and> pos s - size' s < len then pos s - size' s else len)"

text \<open>
  One pass through the body of \<^verbatim>\<open>readInternal\<close>, from the label \<^verbatim>\<open>retry\<close> to a
  \<^verbatim>\<open>return\<close> or to \<^verbatim>\<open>goto retry\<close>. A return gives the bytes written to \<^verbatim>\<open>data\<close> (their
  number is the value returned) and the state; \<^verbatim>\<open>goto retry\<close> gives the state and the
  value of \<^verbatim>\<open>len\<close> with which the body is run again.

  \<open>transfer\<close> is the part of the body after the reconnect block: the test for the end of
  a bounded stream, the cap on \<^verbatim>\<open>len\<close>, the wait of a blocking read, and the read itself.
\<close>

datatype pass = Return string source | Retry source uint32

definition transfer :: "source \<Rightarrow> uint32 \<Rightarrow> bool \<Rightarrow> pass" where
  "transfer s len nonBlock =
     (if 0 < sint (size' s) \<and> sint (size' s) \<le> sint (pos s) then Return [] s
      else
        let len1 = cap_len s len;
            s2 = (if \<not> nonBlock then wait_stream 500 len1 s else s);
            avail = length (rx s2)
        in if \<not> nonBlock \<and> avail = 0 then
             Retry (snd (close (emit (St STATUS_NODATA ''No stream data available'') s2))) len1
           else if avail = 0 then Return [] s2
           else
             let n = (if avail < unat len1 then avail else unat len1)
             in Return (take n (rx s2))
                  (s2\<lparr>rx := drop n (rx s2), pos := pos s2 + of_nat n\<rparr>))"

definition readInternal_pass :: "source \<Rightarrow> uint32 \<Rightarrow> bool \<Rightarrow> pass" where
  "readInternal_pass s len nonBlock =
     (if \<not> connected s then
        (let s1 = reconnect s in
         if \<not> connected s1 then
           Return [] (emit (St STATUS_DISCONNECTED ''Unable to reconnect'') s1)
         else transfer s1 len nonBlock)
      else transfer s len nonBlock)"

text \<open>
  \<^verbatim>\<open>readInternal\<close>: the body is run again after each \<^verbatim>\<open>goto retry\<close>. The source puts no
  bound on the number of passes, so the function is partial: \<open>None\<close> is a call that
  does not return.
\<close>

partial_function (option) readInternal ::
  "source \<Rightarrow> uint32 \<Rightarrow> bool \<Rightarrow> (string \<times> source) option" where
  "readInternal s len nonBlock =
     (case readInternal_pass s len nonBlock of
        Return out s' \<Rightarrow> Some (out, s')
      | Retry s' len' \<Rightarrow> readInternal s' len' nonBlock)"

declare readInternal.simps [code]

subsection \<open>The read strategies and the public read calls\<close>

definition readRegular :: "source \<Rightarrow> uint32 \<Rightarrow> bool \<Rightarrow> (string \<times> source) option" where
  "readRegular s len nonBlock = readInternal s len nonBlock"

text \<open>
  What \<^verbatim>\<open>readChunked\<close> does once \<^verbatim>\<open>next_chunk\<close> is 0: the delimiter, then the next chunk
  size, and \<^verbatim>\<open>close()\<close> when that is negative. \<open>out\<close> are the bytes this call has read;
  after a bad delimiter the call returns 0, so none of them is reported.
\<close>

definition next_header :: "string \<Rightarrow> source \<Rightarrow> string \<times> source" where
  "next_header out s =
     (let (ok, s1) = verifyCrlf s in
      if \<not> ok then
        ([], emit (Log (''Couldn't read CRLF after chunk, something is wrong !!'' @ [LF])) s1)
      else
        let (n, s2) = getChunkSize s1;
            s3 = s2\<lparr>next_chunk := n\<rparr>
        in if sint n < 0 then (out, snd (close s3)) else (out, s3))"

text \<open>
  \<^verbatim>\<open>readChunked\<close>. \<^verbatim>\<open>len >= next_chunk\<close> compares a \<^verbatim>\<open>uint32_t\<close> with an \<^verbatim>\<open>int\<close>, so both
  are read unsigned. \<^verbatim>\<open>next_chunk -= bytesRead\<close> uses the member as \<^verbatim>\<open>readInternal\<close>
  left it. The local \<^verbatim>\<open>pos\<close> of the source is the number of bytes read by this call.
\<close>

definition readChunked :: "source \<Rightarrow> uint32 \<Rightarrow> bool \<Rightarrow> (string \<times> source) option" where
  "readChunked s len nonBlock =
     (if 0 < len then
        if next_chunk s \<le> len then
          (case (if next_chunk s \<noteq> 0 then readInternal s (next_chunk s) nonBlock
                 else Some ([], s)) of
             None \<Rightarrow> None
           | Some (out, s1) \<Rightarrow>
               let s2 = (if next_chunk s \<noteq> 0
                         then s1\<lparr>next_chunk := next_chunk s1 - of_nat (length out)\<rparr> else s1)
               in if next_chunk s2 = 0 then Some (next_header out s2) else Some (out, s2))
        else
          (case readInternal s len nonBlock of
             None \<Rightarrow> None
           | Some (out, s1) \<Rightarrow>
               Some (out, s1\<lparr>next_chunk := next_chunk s1 - of_nat (length out)\<rparr>))
      else Some ([], s))"

datatype pointer = NULL | Buffer

definition dispatch :: "source \<Rightarrow> uint32 \<Rightarrow> bool \<Rightarrow> (string \<times> source) option" where
  "dispatch s len nonBlock =
     (case readImpl s of
        ReadRegular \<Rightarrow> readRegular s len nonBlock
      | ReadChunked \<Rightarrow> readChunked s len nonBlock)"

definition read :: "source \<Rightarrow> pointer \<Rightarrow> uint32 \<Rightarrow> (string \<times> source) option" where
  "read s data len =
     (if data = NULL then
        Some ([], emit (Log (''ERROR! AudioFileSourceHTTPStream::read passed NULL data'' @ [LF])) s)
      else dispatch s len False)"

definition readNonBlock :: "source \<Rightarrow> pointer \<Rightarrow> uint32 \<Rightarrow> (string \<times> source) option" where
  "readNonBlock s data len =
     (if data = NULL then
        Some ([], emit
          (Log (''ERROR! AudioFileSourceHTTPStream::readNonBlock passed NULL data'' @ [LF])) s)
      else dispatch s len True)"

section \<open>Notions used in the properties\<close>

text \<open>
  \<open>requests s\<close> counts the \<^verbatim>\<open>GET\<close> requests made so far; \<open>stream s\<close> are the bytes of the
  current connection that have not been handed out, in the order in which they are
  read; \<open>exhausted s\<close> is the test \<^verbatim>\<open>(size > 0) && (pos >= size)\<close>.
\<close>

definition is_Get :: "event \<Rightarrow> bool" where
  "is_Get e = (case e of Get u \<Rightarrow> True | _ \<Rightarrow> False)"

definition requests :: "source \<Rightarrow> nat" where
  "requests s = length (filter is_Get (trace s))"

definition stream :: "source \<Rightarrow> string" where
  "stream s = rx s @ concat (arrivals s)"

definition exhausted :: "source \<Rightarrow> bool" where
  "exhausted s = (0 < sint (size' s) \<and> sint (size' s) \<le> sint (pos s))"

text \<open>
  \<open>io_only s s'\<close>: from \<open>s\<close> to \<open>s'\<close> nothing has changed but the bytes in the client's
  buffer, the bytes on their way and the list of outside calls.
\<close>

definition io_only :: "source \<Rightarrow> source \<Rightarrow> bool" where
  "io_only s s' = (\<exists>r a t. s' = s\<lparr>rx := r, arrivals := a, trace := t\<rparr>)"

section \<open>Concrete servers and sessions\<close>

text \<open>
  \<open>refused\<close> is the answer of a server that accepts no connection: \<^verbatim>\<open>GET\<close> returns a
  value below zero. \<open>idle\<close> is the memory of an object before a constructor has run, with
  no connection and a server that refuses every request.
\<close>

definition refused :: response where
  "refused =
     \<lparr>status_code = - 1, transfer_encoding = [], content_length = - 1, body = [],
      body_later = []\<rparr>"

definition idle :: source where
  "idle =
     \<lparr>pos = 0, size' = 0, reconnectTries = 0, reconnectDelayMs = 0, saveURL = [],
      next_chunk = 0, is_chunked = False, readImpl = ReadRegular, eof = False,
      connected = False, rx = [], arrivals = [], server = (\<lambda>n. refused),
      stream_timeout = 1000, crlf_stack = [CHR 0x00, CHR 0x00], esp32 = False, trace = []\<rparr>"

text \<open>
  A response that declares 10 bytes and delivers 20, and the session opened on it.
\<close>

definition overlong :: response where
  "overlong =
     \<lparr>status_code = 200, transfer_encoding = [], content_length = 10,
      body = ''0123456789ABCDEFGHIJ'', body_later = []\<rparr>"

definition past_size :: source where
  "past_size =
     snd (open ''http://host/a.mp3''
       (AudioFileSourceHTTPStream
         (idle\<lparr>server := (\<lambda>n. if n = 0 then overlong else refused)\<rparr>)))"

text \<open>
  A response of ten bytes with its length declared, and a session on it that the caller
  has closed. One reconnect attempt is configured, as \<^verbatim>\<open>SetReconnect(1, 100)\<close> of the
  class header does.
\<close>

definition ten_bytes :: response where
  "ten_bytes =
     \<lparr>status_code = 200, transfer_encoding = [], content_length = 10,
      body = ''0123456789'', body_later = []\<rparr>"

definition closed_session :: source where
  "closed_session =
     snd (close (snd (open ''http://host/a.mp3''
       ((AudioFileSourceHTTPStream (idle\<lparr>server := (\<lambda>n. ten_bytes)\<rparr>))
          \<lparr>reconnectTries := 1, reconnectDelayMs := 100\<rparr>))))"

text \<open>
  A chunked response whose first chunk-size line is not hexadecimal.
\<close>

definition bad_chunk :: response where
  "bad_chunk =
     \<lparr>status_code = 200, transfer_encoding = ''chunked'', content_length = - 1,
      body = ''zz'' @ [CR, LF] @ ''hello'', body_later = []\<rparr>"

definition bad_open :: "bool \<times> source" where
  "bad_open =
     open ''http://host/radio'' (AudioFileSourceHTTPStream (idle\<lparr>server := (\<lambda>n. bad_chunk)\<rparr>))"

text \<open>
  A session on \<open>ten_bytes\<close> that the caller has closed, with one reconnect attempt
  configured and a server that answers every later request with \<open>bad_chunk\<close>.
\<close>

definition reopened_bad :: source where
  "reopened_bad =
     snd (close (snd (open ''http://host/radio''
       ((AudioFileSourceHTTPStream
            (idle\<lparr>server := (\<lambda>n. if n = 0 then ten_bytes else bad_chunk)\<rparr>))
            \<lparr>reconnectTries := 1, reconnectDelayMs := 100\<rparr>))))"

text \<open>
  A server that answers OK and then sends nothing. \<open>quiet_session\<close> is a session on it
  with no reconnect configured; \<open>stalling\<close> has one reconnect attempt configured, and
  its server answers two requests and refuses the third.
\<close>

definition silent :: response where
  "silent =
     \<lparr>status_code = 200, transfer_encoding = [], content_length = - 1,
      body = [], body_later = []\<rparr>"

definition quiet_session :: source where
  "quiet_session =
     snd (open ''http://host/live'' (AudioFileSourceHTTPStream (idle\<lparr>server := (\<lambda>n. silent)\<rparr>)))"

definition stalling :: source where
  "stalling =
     snd (open ''http://host/live''
       ((AudioFileSourceHTTPStream (idle\<lparr>server := (\<lambda>n. if n < 2 then silent else refused)\<rparr>))
          \<lparr>reconnectTries := 1, reconnectDelayMs := 100\<rparr>))"

text \<open>
  The chunked body of the round-trip example, and the sessions on a server that sends
  it at once and refuses every later request: \<open>wiki_session_with tries delayms\<close> with
  the reconnect configuration that \<^verbatim>\<open>SetReconnect(tries, delayms)\<close> of the class header
  sets between construction and \<^verbatim>\<open>open\<close>, \<open>wiki_session\<close> with the configuration the
  constructor leaves.
\<close>

definition wiki_bytes :: string where
  "wiki_bytes =
     ''4'' @ [CR, LF] @ ''Wiki'' @ [CR, LF] @ ''5'' @ [CR, LF] @ ''pedia'' @ [CR, LF] @
     ''0'' @ [CR, LF] @ [CR, LF]"






definition late_size_line :: response where
  "late_size_line =
     \<lparr>status_code = 200, transfer_encoding = ''chunked'', content_length = - 1,
      body = ''4'' @ [CR, LF] @ ''Wiki'' @ [CR, LF],
      body_later = replicate 1500 [] @
        [''5'' @ [CR, LF] @ ''pedia'' @ [CR, LF] @ ''0'' @ [CR, LF] @ [CR, LF]]\<rparr>"

definition stalled_session :: source where
  "stalled_session =
     snd (open ''http://host/wiki''
       (AudioFileSourceHTTPStream
         (idle\<lparr>server := (\<lambda>n. if n = 0 then late_size_line else refused)\<rparr>)))"



text \<open>
  A chunked response whose second chunk-size line arrives three ticks after the first
  chunk and its delimiter, and a session on it.
\<close>

definition slow_header :: response where
  "slow_header =
     \<lparr>status_code = 200, transfer_encoding = ''chunked'', content_length = - 1,
      body = ''4'' @ [CR, LF] @ ''Wiki'' @ [CR, LF],
      body_later = [[], [], ''5'' @ [CR, LF] @ ''pedia'' @ [CR, LF]]\<rparr>"

definition waiting_session :: source where
  "waiting_session =
     snd (open ''http://host/radio''
       (AudioFileSourceHTTPStream (idle\<lparr>server := (\<lambda>n. slow_header)\<rparr>)))"

text \<open>
  \<open>unreachable s\<close>: no reconnect of \<open>s\<close> can succeed, because none is configured or
  because the server refuses every request. \<open>lost s s'\<close>: \<open>s'\<close> is disconnected and has
  the end-of-stream flag, the chunk counter, the read strategy and the reconnect
  configuration of \<open>s\<close>, and its server still refuses every request if that of \<open>s\<close> did.
\<close>

definition unreachable :: "source \<Rightarrow> bool" where
  "unreachable s = (sint (reconnectTries s) \<le> 0 \<or> server s = (\<lambda>n. refused))"

definition lost :: "source \<Rightarrow> source \<Rightarrow> bool" where
  "lost s s' =
     (\<not> connected s' \<and> eof s' = eof s \<and> next_chunk s' = next_chunk s \<and>
      readImpl s' = readImpl s \<and> reconnectTries s' = reconnectTries s \<and>
      (server s = (\<lambda>n. refused) \<longrightarrow> server s' = (\<lambda>n. refused)))"

text \<open>
  A sequence of read calls on one session, each with its own length and either blocking
  or not; the result is the concatenation of what the calls return. \<open>asked calls\<close> is
  the number of calls that ask for at least one byte.
\<close>

fun reads :: "source \<Rightarrow> (bool \<times> uint32) list \<Rightarrow> (string \<times> source) option" where
  "reads s [] = Some ([], s)"
| "reads s ((nonBlock, len) # calls) =
     (case (if nonBlock then readNonBlock s Buffer len else read s Buffer len) of
        None \<Rightarrow> None
      | Some (out, s') \<Rightarrow>
          (case reads s' calls of
             None \<Rightarrow> None
           | Some (outs, s'') \<Rightarrow> Some (out @ outs, s'')))"






section \<open>Auxiliary facts\<close>

subsection \<open>Waiting and reading lines\<close>

lemma wait_available_ready: "rx s \<noteq> [] \<Longrightarrow> wait_available t s = s"
  by (cases t) simp_all

lemma wait_stream_ready: "\<not> int (length (rx s)) < sint len \<Longrightarrow> wait_stream t len s = s"
  by (cases t) simp_all

lemma timedRead_Cons: "rx s = c # cs \<Longrightarrow> timedRead t s = (Some c, s\<lparr>rx := cs\<rparr>)"
  by (simp add: timedRead.simps)

lemma readStringUntil_found:
  "rx s = pre @ t # rest \<Longrightarrow> t \<notin> set pre \<Longrightarrow> readStringUntil t s = (pre, s\<lparr>rx := rest\<rparr>)"
proof (induction pre arbitrary: s)
  case Nil
  then show ?case
    by (subst readStringUntil.simps) (simp add: timedRead_Cons)
next
  case (Cons a pre)
  have "readStringUntil t (s\<lparr>rx := pre @ t # rest\<rparr>) = (pre, s\<lparr>rx := pre @ t # rest\<rparr>\<lparr>rx := rest\<rparr>)"
    using Cons.prems by (intro Cons.IH) auto
  with Cons.prems show ?case
    by (subst readStringUntil.simps) (auto simp add: timedRead_Cons)
qed

lemma emit_sel [simp]:
  "pos (emit e s) = pos s" "size' (emit e s) = size' s"
  "reconnectTries (emit e s) = reconnectTries s" "reconnectDelayMs (emit e s) = reconnectDelayMs s"
  "saveURL (emit e s) = saveURL s" "next_chunk (emit e s) = next_chunk s"
  "is_chunked (emit e s) = is_chunked s" "readImpl (emit e s) = readImpl s"
  "eof (emit e s) = eof s" "connected (emit e s) = connected s" "rx (emit e s) = rx s"
  "arrivals (emit e s) = arrivals s" "server (emit e s) = server s"
  "stream_timeout (emit e s) = stream_timeout s" "crlf_stack (emit e s) = crlf_stack s"
  "esp32 (emit e s) = esp32 s" "trace (emit e s) = trace s @ [e]"
  by (simp_all add: emit_def)

lemma http_end_sel [simp]:
  "pos (http_end s) = pos s" "size' (http_end s) = size' s"
  "reconnectTries (http_end s) = reconnectTries s" "reconnectDelayMs (http_end s) = reconnectDelayMs s"
  "saveURL (http_end s) = saveURL s" "next_chunk (http_end s) = next_chunk s"
  "is_chunked (http_end s) = is_chunked s" "readImpl (http_end s) = readImpl s"
  "eof (http_end s) = eof s" "connected (http_end s) = False" "rx (http_end s) = []"
  "arrivals (http_end s) = []" "server (http_end s) = server s"
  "stream_timeout (http_end s) = stream_timeout s" "crlf_stack (http_end s) = crlf_stack s"
  "esp32 (http_end s) = esp32 s" "trace (http_end s) = trace s"
  by (simp_all add: http_end_def)

lemma close_sel [simp]:
  "fst (close s) = True"
  "pos (snd (close s)) = pos s" "size' (snd (close s)) = size' s"
  "reconnectTries (snd (close s)) = reconnectTries s"
  "reconnectDelayMs (snd (close s)) = reconnectDelayMs s"
  "saveURL (snd (close s)) = saveURL s" "next_chunk (snd (close s)) = next_chunk s"
  "is_chunked (snd (close s)) = is_chunked s" "readImpl (snd (close s)) = readImpl s"
  "eof (snd (close s)) = True" "connected (snd (close s)) = False" "rx (snd (close s)) = []"
  "arrivals (snd (close s)) = []" "server (snd (close s)) = server s"
  "stream_timeout (snd (close s)) = stream_timeout s" "crlf_stack (snd (close s)) = crlf_stack s"
  "esp32 (snd (close s)) = esp32 s" "trace (snd (close s)) = trace s"
  by (simp_all add: close_def client_stop_def http_end_def)


lemma requests_update [simp]:
  "requests (s\<lparr>rx := a\<rparr>) = requests s"
  "requests (s\<lparr>arrivals := b\<rparr>) = requests s"
  "requests (s\<lparr>connected := c\<rparr>) = requests s"
  "requests (s\<lparr>server := d\<rparr>) = requests s"
  "requests (s\<lparr>pos := e\<rparr>) = requests s"
  "requests (s\<lparr>size' := f\<rparr>) = requests s"
  "requests (s\<lparr>saveURL := g\<rparr>) = requests s"
  "requests (s\<lparr>next_chunk := h\<rparr>) = requests s"
  "requests (s\<lparr>is_chunked := i\<rparr>) = requests s"
  "requests (s\<lparr>readImpl := j\<rparr>) = requests s"
  "requests (s\<lparr>eof := k\<rparr>) = requests s"
  by (simp_all add: requests_def)

lemma requests_emit [simp]: "requests (emit e s) = requests s + (if is_Get e then 1 else 0)"
  by (simp add: requests_def emit_def)

lemma is_Get_simps [simp]:
  "is_Get (Get u)" "\<not> is_Get Yield" "\<not> is_Get (St k m)" "\<not> is_Get (Log m)" "\<not> is_Get (Delay d)"
  by (simp_all add: is_Get_def)

lemma requests_yield [simp]: "requests (yield s) = requests s"
  by (simp add: yield_def split: list.splits)

lemma stream_yield [simp]: "stream (yield s) = stream s"
  by (simp add: yield_def stream_def emit_def split: list.splits)

lemma connected_yield [simp]: "connected (yield s) = connected s"
  by (simp add: yield_def emit_def split: list.splits)

lemma requests_wait_stream [simp]: "requests (wait_stream t len s) = requests s"
  by (induction t arbitrary: s) simp_all

lemma stream_wait_stream [simp]: "stream (wait_stream t len s) = stream s"
  by (induction t arbitrary: s) simp_all

lemma connected_wait_stream [simp]: "connected (wait_stream t len s) = connected s"
  by (induction t arbitrary: s) simp_all

lemma requests_wait_available [simp]: "requests (wait_available t s) = requests s"
  by (induction t arbitrary: s) simp_all

lemma requests_timedRead: "timedRead t s = (r, s') \<Longrightarrow> requests s' = requests s"
proof (induction t arbitrary: s)
  case 0
  then show ?case by (auto simp: timedRead.simps split: list.splits)
next
  case (Suc t)
  show ?case
  proof (cases "rx s")
    case Nil
    with Suc.prems have "timedRead t (yield s) = (r, s')" by (simp add: timedRead.simps)
    from Suc.IH [OF this] show ?thesis by simp
  next
    case (Cons a as)
    with Suc.prems show ?thesis by (auto simp: timedRead.simps)
  qed
qed

lemma requests_readStringUntil: "readStringUntil c s = (r, s') \<Longrightarrow> requests s' = requests s"
proof (induction c s arbitrary: r s' rule: readStringUntil.induct)
  case (1 terminator s)
  obtain x s1 where t: "timedRead (stream_timeout s) s = (x, s1)"
    by (cases "timedRead (stream_timeout s) s")
  have s1: "requests s1 = requests s" using requests_timedRead [OF t] .
  show ?case
  proof (cases x)
    case None
    with t s1 "1.prems" show ?thesis by (subst (asm) readStringUntil.simps) simp
  next
    case (Some c)
    show ?thesis
    proof (cases "c = terminator")
      case True
      with t s1 Some "1.prems" show ?thesis by (subst (asm) readStringUntil.simps) simp
    next
      case False
      obtain r1 s2 where rec: "readStringUntil terminator s1 = (r1, s2)"
        by (cases "readStringUntil terminator s1")
      from "1.IH" [OF t [symmetric] Some False rec] have "requests s2 = requests s1" .
      with t s1 Some False rec "1.prems" show ?thesis
        by (subst (asm) readStringUntil.simps) simp
    qed
  qed
qed

lemma requests_http_end [simp]: "requests (http_end s) = requests s"
  by (simp add: http_end_def)

lemma requests_close [simp]: "requests (snd (close s)) = requests s"
  by (simp add: close_def client_stop_def)

lemma requests_verifyCrlf: "verifyCrlf s = (ok, s') \<Longrightarrow> requests s' = requests s"
  by (auto simp add: verifyCrlf_def Let_def)

lemma requests_getChunkSize: "getChunkSize s = (n, s') \<Longrightarrow> requests s' = requests s"
  by (auto simp add: getChunkSize_def Let_def split: prod.splits if_splits
        dest!: requests_readStringUntil)



subsection \<open>One pass of the low-level read\<close>







lemma transfer_block_empty:
  "\<not> exhausted s \<Longrightarrow> s2 = wait_stream 500 (cap_len s len) s \<Longrightarrow> rx s2 = [] \<Longrightarrow>
   transfer s len False =
     Retry (snd (close (emit (St STATUS_NODATA ''No stream data available'') s2))) (cap_len s len)"
  by (simp add: transfer_def exhausted_def Let_def)








subsection \<open>What the line and chunk routines leave unchanged\<close>

lemma io_onlyI: "s' = s\<lparr>rx := r, arrivals := a, trace := t\<rparr> \<Longrightarrow> io_only s s'"
  unfolding io_only_def by blast

lemma io_only_refl [simp]: "io_only s s"
  by (rule io_onlyI [where r = "rx s" and a = "arrivals s" and t = "trace s"]) simp

lemma io_only_trans: "io_only s s' \<Longrightarrow> io_only s' s'' \<Longrightarrow> io_only s s''"
  unfolding io_only_def by (elim exE) (simp, blast)

lemma io_only_sel:
  assumes "io_only s s'"
  shows "pos s' = pos s" "size' s' = size' s" "reconnectTries s' = reconnectTries s"
    "reconnectDelayMs s' = reconnectDelayMs s" "saveURL s' = saveURL s"
    "next_chunk s' = next_chunk s" "is_chunked s' = is_chunked s" "readImpl s' = readImpl s"
    "eof s' = eof s" "connected s' = connected s" "server s' = server s"
    "stream_timeout s' = stream_timeout s" "crlf_stack s' = crlf_stack s" "esp32 s' = esp32 s"
  using assms unfolding io_only_def by auto

lemma io_only_rx [simp]: "io_only s (s\<lparr>rx := r\<rparr>)"
  by (rule io_onlyI [where r = r and a = "arrivals s" and t = "trace s"]) simp

lemma io_only_emit [simp]: "io_only s (emit e s)"
  by (rule io_onlyI [where r = "rx s" and a = "arrivals s" and t = "trace s @ [e]"]) (simp add: emit_def)

lemma io_only_yield [simp]: "io_only s (yield s)"
proof (cases "arrivals s")
  case Nil
  then show ?thesis by (simp add: yield_def)
next
  case (Cons a as)
  show ?thesis
    by (rule io_onlyI [where r = "rx s @ a" and a = as and t = "trace s @ [Yield]"])
       (simp add: yield_def emit_def Cons)
qed

lemma io_only_wait_available [simp]: "io_only s (wait_available t s)"
proof (induction t arbitrary: s)
  case 0
  show ?case by simp
next
  case (Suc t)
  from io_only_trans [OF io_only_yield Suc.IH] show ?case by simp
qed

lemma io_only_wait_stream [simp]: "io_only s (wait_stream t len s)"
proof (induction t arbitrary: s)
  case 0
  show ?case by simp
next
  case (Suc t)
  from io_only_trans [OF io_only_yield Suc.IH] show ?case by simp
qed

lemma io_only_timedRead: "timedRead t s = (r, s') \<Longrightarrow> io_only s s'"
proof (induction t arbitrary: s)
  case 0
  then show ?case by (auto simp: timedRead.simps split: list.splits)
next
  case (Suc t)
  show ?case
  proof (cases "rx s")
    case Nil
    with Suc.prems have "timedRead t (yield s) = (r, s')" by (simp add: timedRead.simps)
    from io_only_trans [OF io_only_yield Suc.IH [OF this]] show ?thesis .
  next
    case (Cons a as)
    with Suc.prems show ?thesis by (auto simp: timedRead.simps)
  qed
qed

lemma io_only_readStringUntil: "readStringUntil c s = (r, s') \<Longrightarrow> io_only s s'"
proof (induction c s arbitrary: r s' rule: readStringUntil.induct)
  case (1 terminator s)
  obtain x s1 where t: "timedRead (stream_timeout s) s = (x, s1)"
    by (cases "timedRead (stream_timeout s) s")
  note s1 = io_only_timedRead [OF t]
  show ?case
  proof (cases x)
    case None
    with t s1 "1.prems" show ?thesis by (subst (asm) readStringUntil.simps) simp
  next
    case (Some c)
    show ?thesis
    proof (cases "c = terminator")
      case True
      with t s1 Some "1.prems" show ?thesis by (subst (asm) readStringUntil.simps) simp
    next
      case False
      obtain r1 s2 where rec: "readStringUntil terminator s1 = (r1, s2)"
        by (cases "readStringUntil terminator s1")
      from "1.IH" [OF t [symmetric] Some False rec] have "io_only s1 s2" .
      with s1 have "io_only s s2" by (rule io_only_trans)
      with t Some False rec "1.prems" show ?thesis
        by (subst (asm) readStringUntil.simps) simp
    qed
  qed
qed

lemma io_only_verifyCrlf: "verifyCrlf s = (ok, s') \<Longrightarrow> io_only s s'"
  by (auto simp add: verifyCrlf_def Let_def)

lemma io_only_getChunkSize: "getChunkSize s = (n, s') \<Longrightarrow> io_only s s'"
proof -
  assume a: "getChunkSize s = (n, s')"
  let ?s1 = "wait_available 1500 s"
  obtain l s2 where c: "readStringUntil CR ?s1 = (l, s2)" by (cases "readStringUntil CR ?s1")
  obtain l' s3 where d: "readStringUntil LF s2 = (l', s3)" by (cases "readStringUntil LF s2")
  have "io_only s s3"
    using io_only_trans [OF io_only_wait_available io_only_trans [OF io_only_readStringUntil [OF c] io_only_readStringUntil [OF d]]] .
  with a c d show ?thesis
    by (auto simp: getChunkSize_def Let_def split: if_splits prod.splits)
qed

subsection \<open>Waiting when nothing arrives\<close>

lemma yield_idle: "arrivals s = [] \<Longrightarrow> yield s = s\<lparr>trace := trace s @ [Yield]\<rparr>"
  by (simp add: yield_def emit_def)

lemma wait_stream_idle:
  "arrivals s = [] \<Longrightarrow> int (length (rx s)) < sint len \<Longrightarrow>
   wait_stream t len s = s\<lparr>trace := trace s @ replicate t Yield\<rparr>"
proof (induction t arbitrary: s)
  case 0
  show ?case by simp
next
  case (Suc t)
  have "wait_stream t len (yield s) = (yield s)\<lparr>trace := trace (yield s) @ replicate t Yield\<rparr>"
    using Suc.prems by (intro Suc.IH) (simp_all add: yield_idle)
  with Suc.prems show ?case by (simp add: yield_idle)
qed


lemma wait_available_empty_ticks:
  "rx s = [] \<Longrightarrow> take t (arrivals s) = replicate t [] \<Longrightarrow> t \<le> length (arrivals s) \<Longrightarrow>
   wait_available t s = s\<lparr>arrivals := drop t (arrivals s), trace := trace s @ replicate t Yield\<rparr>"
proof (induction t arbitrary: s)
  case 0
  show ?case by simp
next
  case (Suc t)
  from Suc.prems(2,3) obtain as where a: "arrivals s = [] # as"
    by (cases "arrivals s") auto
  have y: "yield s = s\<lparr>arrivals := as, trace := trace s @ [Yield]\<rparr>"
    using a Suc.prems(1) by (simp add: yield_def emit_def)
  have "wait_available t (yield s) =
      (yield s)\<lparr>arrivals := drop t (arrivals (yield s)),
                trace := trace (yield s) @ replicate t Yield\<rparr>"
    using Suc.prems a by (intro Suc.IH) (simp_all add: y)
  with Suc.prems(1) a show ?case by (simp add: y replicate_app_Cons_same)
qed

lemma wait_available_numeral:
  "wait_available (numeral k) s =
     (if rx s = [] then wait_available (pred_numeral k) (yield s) else s)"
  by (simp add: numeral_eq_Suc)

lemma dec_0: "dec 0 = ''0''"
  by code_simp

subsection \<open>Reads on an ended session, and the chunked read\<close>

lemma reconnect_none:
  "sint (reconnectTries s) \<le> 0 \<Longrightarrow>
   reconnect s = http_end (emit (St STATUS_DISCONNECTED ''Stream disconnected'') s)"
  by (simp add: reconnect_def)

lemma readInternal_ended:
  assumes "\<not> connected s" and "sint (reconnectTries s) \<le> 0"
  shows "readInternal s len nb =
    Some ([], emit (St STATUS_DISCONNECTED ''Unable to reconnect'')
               (http_end (emit (St STATUS_DISCONNECTED ''Stream disconnected'') s)))"
  using assms
  by (subst readInternal.simps) (simp add: readInternal_pass_def reconnect_none)

lemma next_header_frame:
  assumes "next_header out s = (out', s')"
  shows "(out' = out \<or> out' = []) \<and> reconnectTries s' = reconnectTries s \<and>
    (\<not> connected s \<longrightarrow> \<not> connected s') \<and> (eof s \<longrightarrow> eof s') \<and> requests s' = requests s \<and>
    server s' = server s"
proof -
  obtain ok s1 where v: "verifyCrlf s = (ok, s1)" by (cases "verifyCrlf s")
  obtain n s2 where g: "getChunkSize s1 = (n, s2)" by (cases "getChunkSize s1")
  note f1 = io_only_sel [OF io_only_verifyCrlf [OF v]]
  note f2 = io_only_sel [OF io_only_getChunkSize [OF g]]
  note r1 = requests_verifyCrlf [OF v]
  note r2 = requests_getChunkSize [OF g]
  from assms v g show ?thesis
    by (auto simp: next_header_def Let_def f1 f2 r1 r2 split: if_splits)
qed

lemma attempt_refused:
  assumes "server s = (\<lambda>n. refused)"
  shows "fst (attempt i s) = False \<and> lost s (snd (attempt i s))"
  using assms
  by (simp add: attempt_def delay_def open_def http_GET_def HTTP_CODE_OK_def refused_def
        lost_def Let_def)

lemma reconnect_loop_refused:
  assumes "server s = (\<lambda>n. refused)" and "\<not> connected s"
  shows "lost s (reconnect_loop i k s)"
  using assms
proof (induction k arbitrary: i s)
  case 0
  then show ?case by (simp add: lost_def)
next
  case (Suc k)
  obtain ok s1 where a: "attempt i s = (ok, s1)" by (cases "attempt i s")
  from attempt_refused [OF Suc.prems(1), of i] a have ok: "\<not> ok" and l: "lost s s1" by simp_all
  from l Suc.prems(1) have "server s1 = (\<lambda>n. refused)" "\<not> connected s1" by (simp_all add: lost_def)
  from Suc.IH [OF this] have "lost s1 (reconnect_loop (Suc i) k s1)" .
  with l Suc.prems(1) have "lost s (reconnect_loop (Suc i) k s1)" by (simp add: lost_def)
  with a ok show ?case by simp
qed

lemma reconnect_unreachable:
  assumes "unreachable s"
  shows "lost s (reconnect s)"
proof (cases "sint (reconnectTries s) \<le> 0")
  case True
  then show ?thesis by (simp add: reconnect_none lost_def)
next
  case False
  with assms have r: "server s = (\<lambda>n. refused)" by (simp add: unreachable_def)
  let ?s0 = "http_end (emit (St STATUS_DISCONNECTED ''Stream disconnected'') s)"
  have "lost ?s0 (reconnect_loop 0 (nat (sint (reconnectTries s))) ?s0)"
    using r by (intro reconnect_loop_refused) simp_all
  then show ?thesis by (simp add: reconnect_def lost_def)
qed

lemma readInternal_unreachable:
  assumes "\<not> connected s" and "unreachable s"
  shows "\<exists>s'. readInternal s len nb = Some ([], s') \<and> lost s s'"
proof -
  from reconnect_unreachable [OF assms(2)] have l: "lost s (reconnect s)" .
  then have "\<not> connected (reconnect s)" by (simp add: lost_def)
  with assms(1) have "readInternal s len nb =
     Some ([], emit (St STATUS_DISCONNECTED ''Unable to reconnect'') (reconnect s))"
    by (subst readInternal.simps) (simp add: readInternal_pass_def)
  moreover from l have "lost s (emit (St STATUS_DISCONNECTED ''Unable to reconnect'') (reconnect s))"
    by (simp add: lost_def)
  ultimately show ?thesis by blast
qed

lemma readChunked_ended:
  assumes "\<not> connected s" and "unreachable s" and "eof s"
  shows "\<exists>s'. readChunked s len nb = Some ([], s') \<and> \<not> connected s' \<and> eof s' \<and>
     reconnectTries s' = reconnectTries s \<and>
     (server s = (\<lambda>n. refused) \<longrightarrow> server s' = (\<lambda>n. refused))"
proof -
  have hdr: "\<exists>s'. next_header [] s = ([], s') \<and> \<not> connected s' \<and> eof s' \<and>
     reconnectTries s' = reconnectTries s \<and> server s' = server s"
  proof -
    obtain o' s' where n: "next_header [] s = (o', s')" by (cases "next_header [] s")
    from next_header_frame [OF n] assms n show ?thesis by auto
  qed
  have ri: "\<exists>s1. readInternal s l nb = Some ([], s1) \<and> lost s s1" for l
    by (rule readInternal_unreachable [OF assms(1,2)])
  show ?thesis
  proof (cases "0 < len")
    case False
    with assms show ?thesis by (simp add: readChunked_def)
  next
    case len: True
    show ?thesis
    proof (cases "next_chunk s \<le> len")
      case False
      from ri [of len] obtain s1 where "readInternal s len nb = Some ([], s1)" "lost s s1" by blast
      with False len assms(3) show ?thesis by (simp add: readChunked_def lost_def)
    next
      case le: True
      show ?thesis
      proof (cases "next_chunk s = 0")
        case True
        from hdr obtain s' where "next_header [] s = ([], s')" "\<not> connected s'" "eof s'"
          "reconnectTries s' = reconnectTries s" "server s' = server s" by auto
        with True len le show ?thesis by (simp add: readChunked_def)
      next
        case False
        from ri [of "next_chunk s"] obtain s1
          where "readInternal s (next_chunk s) nb = Some ([], s1)" "lost s s1" by blast
        with False len le assms(3) show ?thesis by (simp add: readChunked_def lost_def)
      qed
    qed
  qed
qed

lemma read_ended:
  assumes "\<not> connected s" and "unreachable s" and "eof s"
  shows "\<exists>s'. dispatch s len nb = Some ([], s') \<and> \<not> connected s' \<and> eof s' \<and>
     reconnectTries s' = reconnectTries s \<and>
     (server s = (\<lambda>n. refused) \<longrightarrow> server s' = (\<lambda>n. refused))"
proof (cases "readImpl s")
  case ReadRegular
  from readInternal_unreachable [OF assms(1,2), of len nb] obtain s1
    where "readInternal s len nb = Some ([], s1)" "lost s s1" by blast
  with ReadRegular assms(3) show ?thesis
    by (simp add: dispatch_def readRegular_def lost_def)
next
  case ReadChunked
  with readChunked_ended [OF assms] show ?thesis by (simp add: dispatch_def)
qed


subsection \<open>The chunked read on a buffer that holds what it needs\<close>









subsection \<open>The round-trip example, step by step\<close>












section \<open>The claims\<close>

lemmas model_defs =
  open_def http_GET_def HTTP_CODE_OK_def opened_def saveURL_size_def
  AudioFileSourceHTTPStream_def emit_def read_def readNonBlock_def dispatch_def
  readRegular_def readInternal_pass_def transfer_def cap_len_def getSize_def getPos_def
  idle_def refused_def

lemmas chunk_defs =
  readChunked_def next_header_def verifyCrlf_def getChunkSize_def
  sscanf_x_def isspace_def hexval_def hexnum_def CR_def LF_def

lemmas reconnect_defs =
  close_def http_end_def client_stop_def reconnect_def attempt_def delay_def dec_0

text \<open>
  C1. The claim: in a session with a declared size the position never exceeds the size,
  because each low-level read is capped at the declared size. The comment of the source
  says so too (\<^verbatim>\<open>Can't read past EOF...\<close>), but the cap is computed as \<^verbatim>\<open>pos - size\<close>, not
  \<^verbatim>\<open>size - pos\<close>, and as an unsigned number that is larger than any request that can
  be made. On the session \<open>past_size\<close>, whose response declares 10 bytes and delivers 20,
  one read of 20 bytes returns all 20 and leaves the position at 20.
\<close>

theorem C1_read_past_declared_size:
  "getSize past_size = 10 \<and> getPos past_size = 0 \<and>
   map_option (\<lambda>(out, s'). (out, getPos s', getSize s')) (read past_size Buffer 20)
     = Some (''0123456789ABCDEFGHIJ'', 20, 10)"
  by (simp add: past_size_def model_defs overlong_def readInternal.simps
        wait_stream_ready Let_def)

text \<open>
  C2, as the source has it. When a blocking read on a connected session that is not at
  its declared end finds no byte after the wait of 500 ticks, \<^verbatim>\<open>readInternal\<close> reports
  \<^verbatim>\<open>STATUS_NODATA\<close>, closes the session and runs its body again from \<^verbatim>\<open>retry\<close> with the
  capped length. The session is then disconnected, so the second pass goes through the
  reconnect loop; with no reconnect attempt configured (\<^verbatim>\<open>reconnectTries <= 0\<close>) the
  call returns 0 after this one retry, with \<^verbatim>\<open>eof\<close> set, the session ended, and exactly
  the three status reports no data, disconnected, unable to reconnect. The source puts
  no bound on the number of retries.
\<close>

theorem C2_no_data_closes_and_retries:
  assumes "connected s" and "\<not> exhausted s"
    and "rx (wait_stream 500 (cap_len s len) s) = []"
  shows "readInternal s len False =
           readInternal
             (snd (close (emit (St STATUS_NODATA ''No stream data available'')
                (wait_stream 500 (cap_len s len) s))))
             (cap_len s len) False \<and>
         (sint (reconnectTries s) \<le> 0 \<longrightarrow>
           (\<exists>s'. readInternal s len False = Some ([], s') \<and> eof s' \<and> \<not> connected s' \<and>
              trace s' = trace (wait_stream 500 (cap_len s len) s) @
                [St STATUS_NODATA ''No stream data available'',
                 St STATUS_DISCONNECTED ''Stream disconnected'',
                 St STATUS_DISCONNECTED ''Unable to reconnect'']))"
proof -
  define s2 where "s2 = wait_stream 500 (cap_len s len) s"
  define s3 where "s3 = snd (close (emit (St STATUS_NODATA ''No stream data available'') s2))"
  have t: "transfer s len False = Retry s3 (cap_len s len)"
    unfolding s3_def using assms(3)
    by (intro transfer_block_empty [OF assms(2) s2_def]) (simp add: s2_def)
  have 1: "readInternal s len False = readInternal s3 (cap_len s len) False"
    by (subst readInternal.simps) (simp add: readInternal_pass_def assms(1) t)
  have 2: "\<exists>s'. readInternal s len False = Some ([], s') \<and> eof s' \<and> \<not> connected s' \<and>
              trace s' = trace s2 @
                [St STATUS_NODATA ''No stream data available'',
                 St STATUS_DISCONNECTED ''Stream disconnected'',
                 St STATUS_DISCONNECTED ''Unable to reconnect'']"
    if "sint (reconnectTries s) \<le> 0"
  proof -
    have "reconnectTries s3 = reconnectTries s"
      by (simp add: s3_def s2_def io_only_sel [OF io_only_wait_stream])
    with that have "readInternal s3 (cap_len s len) False =
       Some ([], emit (St STATUS_DISCONNECTED ''Unable to reconnect'')
               (http_end (emit (St STATUS_DISCONNECTED ''Stream disconnected'') s3)))"
      by (intro readInternal_ended) (simp_all add: s3_def)
    with 1 show ?thesis by (simp add: s3_def)
  qed
  from 1 2 show ?thesis unfolding s2_def s3_def by blast
qed

text \<open>
  The theorem of C2 at \<open>quiet_session\<close>, a session whose server sends nothing, read with
  a request of 4 bytes.
\<close>

theorem C2_quiet_session_returns_0:
  "connected quiet_session \<and> \<not> exhausted quiet_session \<and>
   rx (wait_stream 500 (cap_len quiet_session 4) quiet_session) = [] \<and>
   sint (reconnectTries quiet_session) \<le> 0 \<and>
   (\<exists>s'. readInternal quiet_session 4 False = Some ([], s') \<and> eof s' \<and> \<not> connected s')"
proof -
  have h1: "connected quiet_session"
    and h2: "\<not> exhausted quiet_session"
    and h4: "sint (reconnectTries quiet_session) \<le> 0"
    by (simp_all add: quiet_session_def model_defs silent_def exhausted_def Let_def)
  have h3: "rx (wait_stream 500 (cap_len quiet_session 4) quiet_session) = []"
    by (simp add: quiet_session_def model_defs silent_def wait_stream_idle Let_def)
  from C2_no_data_closes_and_retries [OF h1 h2 h3] h1 h2 h3 h4 show ?thesis by blast
qed

text \<open>
  The claim of C2 as it was stated says that the retry happens exactly once in a call.
  In one blocking read of \<open>stalling\<close> the no-data status is reported twice: the
  reconnect after the first retry succeeds, the server is silent again, and the body
  is run a third time.
\<close>

theorem C2_retries_twice:
  "map_option
     (\<lambda>(out, s'). (out, length (filter (\<lambda>e. e = St STATUS_NODATA ''No stream data available'')
                            (trace s'))))
     (read stalling Buffer 4) = Some ([], 2)"
  by (simp add: stalling_def model_defs silent_def readInternal.simps reconnect_defs
        wait_stream_idle Let_def)

text \<open>
  C3, as the source has it. No read tests \<^verbatim>\<open>eof\<close>. Once \<^verbatim>\<open>close\<close> has run (\<^verbatim>\<open>eof\<close> is true
  and the session is ended) and while no reconnect attempt is configured
  (\<^verbatim>\<open>reconnectTries <= 0\<close>), every \<^verbatim>\<open>read\<close> and every \<^verbatim>\<open>readNonBlock\<close> returns 0 bytes and
  leaves \<^verbatim>\<open>eof\<close> true, the session ended and \<^verbatim>\<open>reconnectTries\<close> as it was, so the same
  holds for the call after it.
\<close>

theorem C3_reads_after_close_return_0:
  assumes "eof s" and "\<not> connected s" and "sint (reconnectTries s) \<le> 0"
  shows "(\<exists>s'. read s data len = Some ([], s') \<and> eof s' \<and> \<not> connected s' \<and>
            reconnectTries s' = reconnectTries s) \<and>
         (\<exists>s'. readNonBlock s data len = Some ([], s') \<and> eof s' \<and> \<not> connected s' \<and>
            reconnectTries s' = reconnectTries s)"
proof (cases data)
  case NULL
  with assms show ?thesis by (simp add: read_def readNonBlock_def)
next
  case Buffer
  from assms(3) have u: "unreachable s" by (simp add: unreachable_def)
  from read_ended [OF assms(2) u assms(1), of len False]
    read_ended [OF assms(2) u assms(1), of len True] Buffer
  show ?thesis by (simp add: read_def readNonBlock_def) blast
qed

text \<open>
  The theorem of C3 at the session \<open>past_size\<close> after \<^verbatim>\<open>close\<close>, read with a request of 4
  bytes.
\<close>

theorem C3_closed_past_size_returns_0:
  "eof (snd (close past_size)) \<and> \<not> connected (snd (close past_size)) \<and>
   sint (reconnectTries (snd (close past_size))) \<le> 0 \<and>
   (\<exists>s'. read (snd (close past_size)) Buffer 4 = Some ([], s') \<and> eof s' \<and> \<not> connected s') \<and>
   (\<exists>s'. readNonBlock (snd (close past_size)) Buffer 4 = Some ([], s') \<and> eof s' \<and>
      \<not> connected s')"
proof -
  have h1: "eof (snd (close past_size))" and h2: "\<not> connected (snd (close past_size))"
    by simp_all
  have h3: "sint (reconnectTries (snd (close past_size))) \<le> 0"
    by (simp add: past_size_def model_defs overlong_def Let_def)
  from C3_reads_after_close_return_0 [OF h1 h2 h3, of Buffer 4] h1 h2 h3
  show ?thesis by blast
qed

text \<open>
  The claim of C3 as it was stated says that no read returns bytes once \<^verbatim>\<open>eof\<close> is
  true. \<open>closed_session\<close> has been closed by its caller, so \<^verbatim>\<open>eof\<close> is true; one
  reconnect attempt is configured, and the next read re-opens the saved URL and returns
  4 bytes, with \<^verbatim>\<open>eof\<close> still true.
\<close>

theorem C3_read_after_eof_returns_bytes:
  "eof closed_session \<and>
   map_option (\<lambda>(out, s'). (out, eof s')) (read closed_session Buffer 4) = Some (''0123'', True)"
  by (simp add: closed_session_def model_defs ten_bytes_def readInternal.simps reconnect_defs
        wait_stream_ready Let_def)

text \<open>
  C4. The claim: whenever \<^verbatim>\<open>open\<close> fails, for a status that is not OK or for a first
  chunk-size line that does not parse, the HTTP session is ended. The source calls
  \<^verbatim>\<open>http.end()\<close> on the first path only; on the second it returns false at once. In
  \<open>bad_open\<close> the server answers OK and chunked and its first line is \<^verbatim>\<open>zz\<close>: \<^verbatim>\<open>open\<close>
  returns false, the session is still connected, and the bytes after the line are
  still in the client's buffer.
\<close>

theorem C4_open_fails_and_stays_connected:
  "fst bad_open = False \<and> connected (snd bad_open) \<and> rx (snd bad_open) = ''hello''"
  by (simp add: bad_open_def model_defs bad_chunk_def getChunkSize_def wait_available_ready
        readStringUntil_found [where pre = "''zz''"] readStringUntil_found [where pre = "[]"]
        sscanf_x_def isspace_def hexval_def CR_def LF_def Let_def)





text \<open>
  The waits of the source are bounded, so the time of arrival matters in other ways
  too. On \<open>stalled_session\<close> the second chunk-size line has not come when the wait of
  1500 ticks in \<^verbatim>\<open>getChunkSize\<close> is over: \<^verbatim>\<open>readChunked\<close> takes this for the end of the
  stream (\<^verbatim>\<open>//timeout EOF\<close>) and closes the session. The calls return \<^verbatim>\<open>Wiki\<close> and nothing
  more.
\<close>

lemma late_size_line_ends_stream:
  "body late_size_line @ concat (body_later late_size_line) = wiki_bytes \<and>
   map_option (\<lambda>(outs, s'). (outs, eof s', connected s', stream s'))
     (reads stalled_session [(False, 4), (False, 5), (True, 5)]) =
   Some (''Wiki'', True, False, [])"
  by (simp add: stalled_session_def late_size_line_def model_defs wiki_bytes_def chunk_defs
        readInternal.simps wait_available_ready wait_stream_ready wait_available_empty_ticks
        readStringUntil_found [where pre = "''4''"] readStringUntil_found [where pre = "[]"]
        reconnect_defs stream_def Let_def)

text \<open>
  C6. The claim: \<^verbatim>\<open>readNonBlock\<close> never enters a wait loop, in regular and in chunked
  mode. In chunked mode \<^verbatim>\<open>readChunked\<close> hands \<^verbatim>\<open>nonBlock\<close> to \<^verbatim>\<open>readInternal\<close>, which then
  does not wait, but at the end of a chunk it calls \<^verbatim>\<open>getChunkSize\<close>, whose wait loop
  of up to 1500 ticks does not know of \<^verbatim>\<open>nonBlock\<close>. On \<open>waiting_session\<close> the first
  chunk and its delimiter are in the buffer and the next chunk-size line arrives three
  ticks later: \<^verbatim>\<open>readNonBlock\<close> of 4 bytes returns the chunk only after three calls of
  \<^verbatim>\<open>yield()\<close>, when the next size, 5, has been read.
\<close>

theorem C6_readNonBlock_waits_for_chunk_size:
  "map_option (\<lambda>(out, s'). (out, drop (length (trace waiting_session)) (trace s'), next_chunk s'))
     (readNonBlock waiting_session Buffer 4) = Some (''Wiki'', [Yield, Yield, Yield], 5)"
  by (simp add: waiting_session_def model_defs slow_header_def
        chunk_defs readInternal.simps wait_available_ready wait_available_numeral yield_def
        readStringUntil_found [where pre = "''4''"] readStringUntil_found [where pre = "[]"]
        readStringUntil_found [where pre = "''5''"]
        Let_def)

text \<open>
  C7. The claim: a read that finds the transport disconnected makes the configured
  number of reconnect attempts, stops at the first that succeeds, and returns 0 when
  all fail. After the loop the source does not test what \<^verbatim>\<open>open\<close> returned but
  \<^verbatim>\<open>http.connected()\<close>, and an \<^verbatim>\<open>open\<close> that fails on the first chunk-size line leaves the
  session connected (see C4). \<open>reopened_bad\<close> is disconnected with one attempt
  configured; the attempt fails (\<^verbatim>\<open>open\<close> returns false, no reconnected status is
  reported), and the read still returns 5 bytes, the bytes after the bad line.
\<close>

theorem C7_read_returns_bytes_after_failed_attempts:
  "\<not> connected reopened_bad \<and>
   fst (attempt 0
     (http_end (emit (St STATUS_DISCONNECTED ''Stream disconnected'') reopened_bad))) = False \<and>
   map_option (\<lambda>(out, s'). (out, drop (length (trace reopened_bad)) (trace s')))
     (read reopened_bad Buffer 5) =
   Some (''hello'',
      [St STATUS_DISCONNECTED ''Stream disconnected'',
       St STATUS_RECONNECTING ''Attempting to reconnect, try 0'',
       Delay 100, Get ''http://host/radio'',
       Log (''Transfer-Encoding: chunked'' @ [LF])])"
  by (simp add: reopened_bad_def model_defs ten_bytes_def bad_chunk_def
        chunk_defs readInternal.simps wait_available_ready wait_stream_ready
        readStringUntil_found [where pre = "''zz''"] readStringUntil_found [where pre = "[]"]
        reconnect_defs Let_def)

text \<open>
  C8. \<^verbatim>\<open>seek\<close> returns false for every state and every pair of arguments, and leaves
  the position and every other member of the object, and the transport, as they were:
  the only thing it does is print its error line.
\<close>

theorem C8_seek_fails_and_changes_nothing:
  "fst (seek s p dir) = False \<and>
   getPos (snd (seek s p dir)) = getPos s \<and>
   snd (seek s p dir) =
     s\<lparr>trace := trace s @ [Log ''ERROR! AudioFileSourceHTTPStream::seek not implemented!'']\<rparr>"
  by (simp add: seek_def emit_def getPos_def)

text \<open>
  C9. \<^verbatim>\<open>close\<close> returns true and sets \<^verbatim>\<open>eof\<close> whatever the state; a second \<^verbatim>\<open>close\<close>
  right after the first gives the same result and the same state as the first; and
  \<^verbatim>\<open>isOpen\<close> is false after the first call and after the second.
\<close>

theorem C9_close_idempotent:
  "fst (close s) = True \<and> eof (snd (close s)) \<and>
   close (snd (close s)) = close s \<and>
   \<not> isOpen (snd (close s)) \<and> \<not> isOpen (snd (close (snd (close s))))"
  by (simp add: close_def client_stop_def http_end_def isOpen_def)




end
